theory Spec2Isabelle
  imports Complex_Main "HOL-Library.Word" "HOL-Library.Signed_Division" "HOL-Library.Log_Nat"
begin

section \<open>The ray tracing overhead benchmark (Core/cbench.cpp)\<close>

text \<open>
  The benchmark is one translation unit: the sampler \<open>NextRandom3\<close> and \<open>main\<close>.
  Everything else it touches is external: the C library generator (\<open>std::srand\<close>,
  \<open>std::rand\<close>, \<open>RAND_MAX\<close>), the clock of \<open>std::chrono\<close>, the console and the
  ray tracing engine behind \<open>raytrace.h\<close>. The external parts are parameters of the
  model (the record \<open>extern\<close>), the program's own statements are translated one by one,
  and every external call is appended to a log, so that the order of calls can be stated.
\<close>

subsection \<open>Single precision arithmetic\<close>

text \<open>
  A \<open>float\<close> is modelled by the exact rational value of a finite IEEE-754 binary32
  number. Only two operations occur in the source: the conversion \<open>(float)i\<close> of an
  \<open>int\<close> and the division of two floats, both rounding to the nearest representable
  value with ties to the even significand. Infinities and NaN are not modelled: they
  would need a quotient of magnitude \<open>2^128\<close> or a zero divisor, and the divisor here is
  \<open>(float)RAND_MAX\<close> with \<open>RAND_MAX \<ge> 32767\<close>.
\<close>

type_synonym float32 = rat

definition pow2 :: "int \<Rightarrow> rat" where
  "pow2 e = (if 0 \<le> e then 2 ^ nat e else 1 / 2 ^ nat (- e))"

text \<open>Rounding to the nearest integer, a tie going to the even neighbour.\<close>

definition round_ties_even :: "rat \<Rightarrow> int" where
  "round_ties_even t =
     (let m = \<lfloor>t\<rfloor>; f = t - of_int m
      in if f < 1 / 2 then m
         else if 1 / 2 < f then m + 1
         else if even m then m else m + 1)"

text \<open>
  The binary exponent of a positive rational, \<open>2^e \<le> q < 2^(e+1)\<close>, from the bit
  lengths of its numerator and denominator.
\<close>

definition ilog2 :: "rat \<Rightarrow> int" where
  "ilog2 q =
     (case quotient_of q of (p, d) \<Rightarrow>
        let e = bitlen p - bitlen d
        in if pow2 e \<le> q then e else e - 1)"

text \<open>
  Rounding a rational to binary32: 24 significant bits, so the spacing of the grid at
  exponent \<open>e\<close> is \<open>2^(e-23)\<close>; below the least normal exponent \<open>-126\<close> the spacing
  stays \<open>2^(-149)\<close> (subnormal numbers).
\<close>

definition round_binary32 :: "rat \<Rightarrow> float32" where
  "round_binary32 q =
     (if q = 0 then 0
      else let e = max (ilog2 \<bar>q\<bar>) (- 126); u = pow2 (e - 23)
           in sgn q * of_int (round_ties_even (\<bar>q\<bar> / u)) * u)"

definition float_of_int :: "int \<Rightarrow> float32" where
  "float_of_int i = round_binary32 (of_int i)"

definition float_div :: "float32 \<Rightarrow> float32 \<Rightarrow> float32" where
  "float_div a b = round_binary32 (a / b)"

subsection \<open>Data of raytrace.h as the benchmark uses it\<close>

text \<open>
  \<open>raytrace.h\<close> is not part of the sources at hand. The benchmark builds a
  \<open>Vector3\<close> from three floats and a \<open>Ray\<close> from two vectors and a float, by
  position; a \<open>Hit\<close> is only declared and handed to the engine, so its type is a
  parameter. A scene handle is a \<open>void*\<close>.
\<close>

datatype Vector3 = Vector3 float32 float32 float32

datatype Ray = Ray Vector3 Vector3 float32

type_synonym handle = "64 word"

subsection \<open>External calls and the state of the run\<close>

datatype ('t, 'h) call =
    Call_InitScene handle
  | Call_AddTriangleMesh handle "float32 list" int "int list" int
  | Call_FinalizeScene handle
  | Call_TraceSingle handle Ray "'h option"
  | Call_DeleteScene handle
  | Call_srand "32 word"
  | Call_rand int
  | Call_now 't

datatype out_item = Text string | Num "64 word" | Endl

text \<open>
  A logged call carries its arguments; \<open>InitScene\<close>, \<open>rand\<close> and \<open>now\<close> carry the
  value they returned. The last argument of a logged \<open>TraceSingle\<close> is what the hit
  record handed to the engine holds at the call: \<open>None\<close> for a record that was
  declared and never written, \<open>Some\<close> for one an earlier call has written.
\<close>

text \<open>
  The external world. \<open>'g\<close> is the state of the C library generator, which only
  \<open>srand\<close> and \<open>rand\<close> touch; \<open>srand\<close> determines it from the seed alone, as the C
  standard requires. \<open>'x\<close> is the rest of the world outside the program: the clock and
  the engine. \<open>'t\<close> is a time point, \<open>elapsed_ms start end\<close> stands for
  \<open>duration_cast<milliseconds>(end - start).count()\<close>, a signed 64-bit count.
  \<open>TraceSingle\<close> receives the ray and the hit record by address: it is given what
  the hit record holds (\<open>None\<close> when nothing was written to it yet) and returns what
  it leaves in the ray and in the hit record, of type \<open>'h\<close>.
\<close>

record ('g, 'x, 't, 'h) extern =
  RAND_MAX :: int
  srand :: "32 word \<Rightarrow> 'g"
  rand :: "'g \<Rightarrow> int \<times> 'g"
  now :: "'x \<Rightarrow> 't \<times> 'x"
  elapsed_ms :: "'t \<Rightarrow> 't \<Rightarrow> 64 word"
  InitScene :: "'x \<Rightarrow> handle \<times> 'x"
  AddTriangleMesh :: "handle \<Rightarrow> float32 list \<Rightarrow> int \<Rightarrow> int list \<Rightarrow> int \<Rightarrow> 'x \<Rightarrow> int \<times> 'x"
  FinalizeScene :: "handle \<Rightarrow> 'x \<Rightarrow> 'x"
  TraceSingle :: "handle \<Rightarrow> Ray \<Rightarrow> 'h option \<Rightarrow> 'x \<Rightarrow> (Ray \<times> 'h) \<times> 'x"
  DeleteScene :: "handle \<Rightarrow> 'x \<Rightarrow> 'x"

text \<open>
  The state of a run: the generator, the world outside, the log, the console, and the
  two local arrays of \<open>main\<close>, which the engine is handed by address. The arrays come
  into being at their declarations; before that the two fields are empty.
\<close>

record ('g, 'x, 't, 'h) world =
  rng :: 'g
  ext :: 'x
  log :: "('t, 'h) call list"
  cout :: "out_item list"
  vertices_array :: "float32 list"
  indices_array :: "int list"

definition call_rand :: "('g, 'x, 't, 'h) extern \<Rightarrow> ('g, 'x, 't, 'h) world \<Rightarrow> int \<times> ('g, 'x, 't, 'h) world" where
  "call_rand E w =
     (case rand E (rng w) of (v, g) \<Rightarrow> (v, w\<lparr>rng := g, log := log w @ [Call_rand v]\<rparr>))"

definition call_srand :: "('g, 'x, 't, 'h) extern \<Rightarrow> 32 word \<Rightarrow> ('g, 'x, 't, 'h) world \<Rightarrow> ('g, 'x, 't, 'h) world" where
  "call_srand E seed w = w\<lparr>rng := srand E seed, log := log w @ [Call_srand seed]\<rparr>"

definition call_now :: "('g, 'x, 't, 'h) extern \<Rightarrow> ('g, 'x, 't, 'h) world \<Rightarrow> 't \<times> ('g, 'x, 't, 'h) world" where
  "call_now E w =
     (case now E (ext w) of (t, s) \<Rightarrow> (t, w\<lparr>ext := s, log := log w @ [Call_now t]\<rparr>))"

definition call_InitScene :: "('g, 'x, 't, 'h) extern \<Rightarrow> ('g, 'x, 't, 'h) world \<Rightarrow> handle \<times> ('g, 'x, 't, 'h) world" where
  "call_InitScene E w =
     (case InitScene E (ext w) of (h, s) \<Rightarrow> (h, w\<lparr>ext := s, log := log w @ [Call_InitScene h]\<rparr>))"

definition call_AddTriangleMesh ::
  "('g, 'x, 't, 'h) extern \<Rightarrow> handle \<Rightarrow> float32 list \<Rightarrow> int \<Rightarrow> int list \<Rightarrow> int \<Rightarrow>
     ('g, 'x, 't, 'h) world \<Rightarrow> int \<times> ('g, 'x, 't, 'h) world" where
  "call_AddTriangleMesh E h vs nv ixs ni w =
     (case AddTriangleMesh E h vs nv ixs ni (ext w) of
        (meshId, s) \<Rightarrow> (meshId, w\<lparr>ext := s, log := log w @ [Call_AddTriangleMesh h vs nv ixs ni]\<rparr>))"

definition call_FinalizeScene :: "('g, 'x, 't, 'h) extern \<Rightarrow> handle \<Rightarrow> ('g, 'x, 't, 'h) world \<Rightarrow> ('g, 'x, 't, 'h) world" where
  "call_FinalizeScene E h w = w\<lparr>ext := FinalizeScene E h (ext w), log := log w @ [Call_FinalizeScene h]\<rparr>"

definition call_TraceSingle ::
  "('g, 'x, 't, 'h) extern \<Rightarrow> handle \<Rightarrow> Ray \<Rightarrow> 'h option \<Rightarrow> ('g, 'x, 't, 'h) world \<Rightarrow>
     (Ray \<times> 'h) \<times> ('g, 'x, 't, 'h) world" where
  "call_TraceSingle E h ray hit w =
     (case TraceSingle E h ray hit (ext w) of
        (res, s) \<Rightarrow> (res, w\<lparr>ext := s, log := log w @ [Call_TraceSingle h ray hit]\<rparr>))"

definition call_DeleteScene :: "('g, 'x, 't, 'h) extern \<Rightarrow> handle \<Rightarrow> ('g, 'x, 't, 'h) world \<Rightarrow> ('g, 'x, 't, 'h) world" where
  "call_DeleteScene E h w = w\<lparr>ext := DeleteScene E h (ext w), log := log w @ [Call_DeleteScene h]\<rparr>"

definition print :: "out_item list \<Rightarrow> ('g, 'x, 't, 'h) world \<Rightarrow> ('g, 'x, 't, 'h) world" where
  "print items w = w\<lparr>cout := cout w @ items\<rparr>"

subsection \<open>The program\<close>

text \<open>
  \<open>NextRandom3\<close>: three draws, each converted to \<open>float\<close> and divided by
  \<open>(float)RAND_MAX\<close>. The braces of the initialiser fix the order of the draws.
\<close>

definition NextRandom3 :: "('g, 'x, 't, 'h) extern \<Rightarrow> ('g, 'x, 't, 'h) world \<Rightarrow> Vector3 \<times> ('g, 'x, 't, 'h) world" where
  "NextRandom3 E w =
     (case call_rand E w of (a, w1) \<Rightarrow>
      case call_rand E w1 of (b, w2) \<Rightarrow>
      case call_rand E w2 of (c, w3) \<Rightarrow>
        (Vector3 (float_div (float_of_int a) (float_of_int (RAND_MAX E)))
                 (float_div (float_of_int b) (float_of_int (RAND_MAX E)))
                 (float_div (float_of_int c) (float_of_int (RAND_MAX E))), w3))"

text \<open>
  The signed 64-bit division \<open>elapsedMs / numTrials\<close> of C++: the quotient is truncated
  towards zero.
\<close>

definition div_s64 :: "64 word \<Rightarrow> 64 word \<Rightarrow> 64 word" where
  "div_s64 a b = word_of_int (sint a sdiv sint b)"

text \<open>
  The loops. The bodies do not read the loop counters, so each loop is a recursion on
  the number of iterations left. \<open>trace_rays\<close> is the inner loop of the first phase
  (a ray and a hit record per iteration, both declared in the body: the ray is built
  from the two vectors just sampled, the hit record is not written before the call, and
  what the engine leaves in them is dropped at the end of the body), \<open>trace_trials\<close> the outer
  one; \<open>rng_rays\<close> and \<open>rng_trials\<close> are the loops of the second phase.
\<close>

fun trace_rays :: "('g, 'x, 't, 'h) extern \<Rightarrow> handle \<Rightarrow> nat \<Rightarrow> ('g, 'x, 't, 'h) world \<Rightarrow> ('g, 'x, 't, 'h) world" where
  "trace_rays E sceneHandle 0 w = w"
| "trace_rays E sceneHandle (Suc i) w =
     (case NextRandom3 E w of (origin, w1) \<Rightarrow>
      case NextRandom3 E w1 of (direction, w2) \<Rightarrow>
      let ray = Ray origin direction 0;
          hit = None
      in
      case call_TraceSingle E sceneHandle ray hit w2 of (res, w3) \<Rightarrow>
        trace_rays E sceneHandle i w3)"

fun trace_trials ::
  "('g, 'x, 't, 'h) extern \<Rightarrow> handle \<Rightarrow> nat \<Rightarrow> nat \<Rightarrow> ('g, 'x, 't, 'h) world \<Rightarrow> ('g, 'x, 't, 'h) world" where
  "trace_trials E sceneHandle 0 n w = w"
| "trace_trials E sceneHandle (Suc k) n w =
     trace_trials E sceneHandle k n (trace_rays E sceneHandle n w)"

fun rng_rays :: "('g, 'x, 't, 'h) extern \<Rightarrow> nat \<Rightarrow> ('g, 'x, 't, 'h) world \<Rightarrow> ('g, 'x, 't, 'h) world" where
  "rng_rays E 0 w = w"
| "rng_rays E (Suc i) w =
     (case NextRandom3 E w of (v1, w1) \<Rightarrow>
      case NextRandom3 E w1 of (v2, w2) \<Rightarrow>
        rng_rays E i w2)"

fun rng_trials :: "('g, 'x, 't, 'h) extern \<Rightarrow> nat \<Rightarrow> nat \<Rightarrow> ('g, 'x, 't, 'h) world \<Rightarrow> ('g, 'x, 't, 'h) world" where
  "rng_trials E 0 n w = w"
| "rng_trials E (Suc k) n w = rng_trials E k n (rng_rays E n w)"

text \<open>The initialisers of the two arrays, and the number of trials.\<close>

definition vertices :: "float32 list" where
  "vertices = [-1, 0, -1,
                1, 0, -1,
                1, 0,  1,
               -1, 0,  1]"

definition indices :: "int list" where
  "indices = [0, 1, 2,
              0, 2, 3]"

definition numTrials :: int where
  "numTrials = 10"

text \<open>
  \<open>main\<close>, statement by statement. The process starts with the generator in state
  \<open>g0\<close>, the outside world in state \<open>x0\<close>, and nothing logged or printed. The result
  is the exit status and the final state. The two array declarations store the
  initialisers \<open>vertices\<close> and \<open>indices\<close> in the arrays; the call that registers the
  mesh reads the arrays. \<open>sizeof(vertices) / sizeof(float)\<close> and
  \<open>sizeof(indices) / sizeof(int)\<close> are the element counts of the two arrays.
\<close>

definition main :: "('g, 'x, 't, 'h) extern \<Rightarrow> 'g \<Rightarrow> 'x \<Rightarrow> int \<times> ('g, 'x, 't, 'h) world" where
  "main E g0 x0 =
     (case call_InitScene E \<lparr>rng = g0, ext = x0, log = [], cout = [],
             vertices_array = [], indices_array = []\<rparr> of (sceneHandle, w1) \<Rightarrow>
      let w1a = w1\<lparr>vertices_array := vertices\<rparr>;
          w1b = w1a\<lparr>indices_array := indices\<rparr>
      in
      case call_AddTriangleMesh E sceneHandle
             (vertices_array w1b) (int (length (vertices_array w1b)))
             (indices_array w1b) (int (length (indices_array w1b))) w1b of (meshId, w2) \<Rightarrow>
      let w3 = call_FinalizeScene E sceneHandle w2;
          w4 = call_srand E 1337 w3;
          w5 = print [Text ''Tracing a million rays...'', Endl] w4
      in
      case call_now E w5 of (start, w6) \<Rightarrow>
      let w7 = trace_trials E sceneHandle (nat numTrials) 1000000 w6 in
      case call_now E w7 of (end, w8) \<Rightarrow>
      let elapsedMs = elapsed_ms E start end;
          w9 = print [Text ''Done after '', Num (div_s64 elapsedMs (word_of_int numTrials)),
                      Text ''ms.'', Endl] w8;
          totalCost = div_s64 elapsedMs (word_of_int numTrials)
      in
      case call_now E w9 of (start', w10) \<Rightarrow>
      let w11 = rng_trials E (nat numTrials) 1000000 w10 in
      case call_now E w11 of (end', w12) \<Rightarrow>
      let elapsedMs' = elapsed_ms E start' end';
          w13 = print [Text ''RNG overhead '', Num (div_s64 elapsedMs' (word_of_int numTrials)),
                       Text ''ms.'', Endl] w12;
          rngCost = div_s64 elapsedMs' (word_of_int numTrials);
          w14 = print [Text ''Pure cost for tracing + overhead: '', Num (totalCost - rngCost),
                       Text ''ms.'', Endl] w13;
          w15 = call_DeleteScene E sceneHandle w14
      in (0, w15))"

subsection \<open>What a run draws and traces\<close>

text \<open>
  Auxiliary functions to state the results: the generator state after \<open>n\<close> draws, the
  next \<open>n\<close> values drawn, the quotient computed from one draw, and the ray built from
  the next six draws.
\<close>

definition advance :: "('g, 'x, 't, 'h) extern \<Rightarrow> nat \<Rightarrow> 'g \<Rightarrow> 'g" where
  "advance E n g = ((\<lambda>s. snd (rand E s)) ^^ n) g"

primrec draws :: "('g, 'x, 't, 'h) extern \<Rightarrow> 'g \<Rightarrow> nat \<Rightarrow> int list" where
  "draws E g 0 = []"
| "draws E g (Suc n) = fst (rand E g) # draws E (snd (rand E g)) n"

definition unit_float :: "('g, 'x, 't, 'h) extern \<Rightarrow> int \<Rightarrow> float32" where
  "unit_float E v = float_div (float_of_int v) (float_of_int (RAND_MAX E))"

fun components :: "Vector3 \<Rightarrow> float32 list" where
  "components (Vector3 a b c) = [a, b, c]"

definition sample3 :: "('g, 'x, 't, 'h) extern \<Rightarrow> 'g \<Rightarrow> Vector3" where
  "sample3 E g =
     Vector3 (unit_float E (fst (rand E g)))
             (unit_float E (fst (rand E (advance E 1 g))))
             (unit_float E (fst (rand E (advance E 2 g))))"

definition sample_ray :: "('g, 'x, 't, 'h) extern \<Rightarrow> 'g \<Rightarrow> Ray" where
  "sample_ray E g = Ray (sample3 E g) (sample3 E (advance E 3 g)) 0"

text \<open>The generator states at which the first \<open>n\<close> rays start: six draws apart.\<close>

primrec ray_states :: "('g, 'x, 't, 'h) extern \<Rightarrow> 'g \<Rightarrow> nat \<Rightarrow> 'g list" where
  "ray_states E g 0 = []"
| "ray_states E g (Suc n) = g # ray_states E (advance E 6 g) n"

text \<open>The calls of one iteration of the tracing loop that starts in generator state \<open>g\<close>.\<close>

definition trace_events :: "('g, 'x, 't, 'h) extern \<Rightarrow> handle \<Rightarrow> 'g \<Rightarrow> ('t, 'h) call list" where
  "trace_events E h g = map Call_rand (draws E g 6) @ [Call_TraceSingle h (sample_ray E g) None]"

fun is_TraceSingle :: "('t, 'h) call \<Rightarrow> bool" where
  "is_TraceSingle (Call_TraceSingle h r hit) = True"
| "is_TraceSingle c = False"

fun traced_rays :: "('t, 'h) call list \<Rightarrow> Ray list" where
  "traced_rays [] = []"
| "traced_rays (Call_TraceSingle h r hit # cs) = r # traced_rays cs"
| "traced_rays (c # cs) = traced_rays cs"

text \<open>The calls that go to the engine.\<close>

fun engine_call :: "('t, 'h) call \<Rightarrow> bool" where
  "engine_call (Call_srand seed) = False"
| "engine_call (Call_rand v) = False"
| "engine_call (Call_now t) = False"
| "engine_call c = True"

text \<open>The time points the clock returned, in the order of the readings.\<close>

fun clock_readings :: "('t, 'h) call list \<Rightarrow> 't list" where
  "clock_readings [] = []"
| "clock_readings (Call_now t # cs) = t # clock_readings cs"
| "clock_readings (c # cs) = clock_readings cs"

fun is_InitScene :: "('t, 'h) call \<Rightarrow> bool" where
  "is_InitScene (Call_InitScene h) = True"
| "is_InitScene c = False"

fun is_AddTriangleMesh :: "('t, 'h) call \<Rightarrow> bool" where
  "is_AddTriangleMesh (Call_AddTriangleMesh h vs nv ixs ni) = True"
| "is_AddTriangleMesh c = False"

fun is_DeleteScene :: "('t, 'h) call \<Rightarrow> bool" where
  "is_DeleteScene (Call_DeleteScene h) = True"
| "is_DeleteScene c = False"

subsection \<open>One concrete external world\<close>

text \<open>
  An instance of the external parts, for evaluating the program on concrete input.
  The generator is the portable one the C standard gives as an example
  (\<open>next = next * 1103515245 + 12345; return (unsigned)(next / 65536) % 32768\<close>, with
  \<open>RAND_MAX = 32767\<close> and \<open>srand\<close> storing the seed). The clock reads its time points,
  in milliseconds, off a list; the engine hands out the handle \<open>0x1000\<close> and keeps no
  state.
\<close>

definition iso_rand :: "32 word \<Rightarrow> int \<times> 32 word" where
  "iso_rand next = (let n = next * 1103515245 + 12345 in (uint (drop_bit 16 n) mod 32768, n))"

definition iso_extern :: "(32 word, 64 word list, 64 word, unit) extern" where
  "iso_extern =
     \<lparr>RAND_MAX = 32767,
      srand = (\<lambda>seed. seed),
      rand = iso_rand,
      now = (\<lambda>s. case s of [] \<Rightarrow> (0, []) | t # ts \<Rightarrow> (t, ts)),
      elapsed_ms = (\<lambda>start end. end - start),
      InitScene = (\<lambda>s. (4096, s)),
      AddTriangleMesh = (\<lambda>h vs nv ixs ni s. (0, s)),
      FinalizeScene = (\<lambda>h s. s),
      TraceSingle = (\<lambda>h r hit s. ((r, ()), s)),
      DeleteScene = (\<lambda>h s. s)\<rparr>"

section \<open>Properties\<close>

subsection \<open>Rounding to single precision is monotone\<close>

text \<open>
  Rounding never reorders two values: the grid of one exponent is evenly spaced, and
  the powers of two between the grids of different exponents are on both.
\<close>

lemma pow2_powi: "pow2 e = 2 powi e"
  by (simp add: pow2_def power_int_def power_one_over)

lemma pow2_pos [simp]: "0 < pow2 e"
  by (simp add: pow2_powi)

lemma pow2_neq0 [simp]: "pow2 e \<noteq> 0"
  by (simp add: pow2_powi)

lemma pow2_add: "pow2 (a + b) = pow2 a * pow2 b"
  by (simp add: pow2_powi power_int_add)

lemma pow2_mono: "a \<le> b \<Longrightarrow> pow2 a \<le> pow2 b"
  by (simp add: pow2_powi power_int_increasing)

lemma pow2_strict_mono: "a < b \<Longrightarrow> pow2 a < pow2 b"
  by (simp add: pow2_powi power_int_strict_increasing)

lemma pow2_less_cancel: "pow2 a < pow2 b \<Longrightarrow> a < b"
  using pow2_mono [of b a] by (cases "a < b") simp_all

lemma pow2_nonneg_exp: "0 \<le> e \<Longrightarrow> pow2 e = of_int (2 ^ nat e)"
  by (simp add: pow2_def)

lemma rte_of_int [simp]: "round_ties_even (of_int n) = n"
  by (simp add: round_ties_even_def)

lemma rte_ge_floor: "\<lfloor>t\<rfloor> \<le> round_ties_even t"
  by (simp add: round_ties_even_def Let_def)

lemma rte_le_floor: "round_ties_even t \<le> \<lfloor>t\<rfloor> + 1"
  by (simp add: round_ties_even_def Let_def)

lemma rte_mono: 
  assumes "s \<le> t" shows "round_ties_even s \<le> round_ties_even t"
proof (cases "\<lfloor>s\<rfloor> = \<lfloor>t\<rfloor>")
  case True
  with assms show ?thesis
    by (auto simp add: round_ties_even_def Let_def)
next
  case False
  with assms have "\<lfloor>s\<rfloor> + 1 \<le> \<lfloor>t\<rfloor>"
    using floor_mono [of s t] by linarith
  with rte_le_floor [of s] rte_ge_floor [of t] show ?thesis by linarith
qed

lemma rte_le_int: "t \<le> of_int n \<Longrightarrow> round_ties_even t \<le> n"
  using rte_mono [of t "of_int n"] by simp

lemma rte_ge_int: "of_int n \<le> t \<Longrightarrow> n \<le> round_ties_even t"
  using rte_mono [of "of_int n" t] by simp

lemma bitlen_pow2_bounds:
  assumes "0 < p"
  shows "pow2 (bitlen p - 1) \<le> of_int p" and "of_int p < pow2 (bitlen p)"
proof -
  from assms have pos: "0 < bitlen p"
    using bitlen_nonneg [of p] bitlen_eq_zero_iff [of p] by linarith
  from bitlen_bounds [OF assms]
  have b: "2 ^ nat (bitlen p - 1) \<le> p" "p < 2 ^ nat (bitlen p)"
    by simp_all
  have "pow2 (bitlen p - 1) = of_int (2 ^ nat (bitlen p - 1))"
    using pos by (simp add: pow2_nonneg_exp)
  also have "\<dots> \<le> of_int p"
    using b(1) by (simp only: of_int_le_iff)
  finally show "pow2 (bitlen p - 1) \<le> of_int p" .
  have "(of_int p :: rat) < of_int (2 ^ nat (bitlen p))"
    using b(2) by (simp only: of_int_less_iff)
  also have "\<dots> = pow2 (bitlen p)"
    using pos by (simp add: pow2_nonneg_exp)
  finally show "of_int p < pow2 (bitlen p)" .
qed

lemma ilog2_bounds:
  assumes "0 < q"
  shows "pow2 (ilog2 q) \<le> q" and "q < pow2 (ilog2 q + 1)"
proof -
  obtain p d where pd: "quotient_of q = (p, d)"
    by (cases "quotient_of q")
  then have d: "0 < d" and q: "q = of_int p / of_int d"
    by (simp_all add: quotient_of_denom_pos quotient_of_div)
  with assms have p: "0 < p"
    by (simp add: zero_less_divide_iff)
  define e where "e = bitlen p - bitlen d"
  have il: "ilog2 q = (if pow2 e \<le> q then e else e - 1)"
    by (simp add: ilog2_def pd e_def Let_def)
  have "pow2 (bitlen p - 1) / pow2 (bitlen d) < of_int p / of_int d"
    using bitlen_pow2_bounds [OF p] bitlen_pow2_bounds [OF d] p d
    by (intro frac_less2) simp_all
  moreover have "pow2 (bitlen p - 1) = pow2 (e - 1) * pow2 (bitlen d)"
    using pow2_add [of "e - 1" "bitlen d"] by (simp add: e_def)
  ultimately have lo: "pow2 (e - 1) < q"
    by (simp add: q)
  have "of_int p / of_int d < pow2 (bitlen p) / pow2 (bitlen d - 1)"
    using bitlen_pow2_bounds [OF p] bitlen_pow2_bounds [OF d] p d
    by (intro frac_less) simp_all
  moreover have "pow2 (bitlen p) = pow2 (e + 1) * pow2 (bitlen d - 1)"
    using pow2_add [of "e + 1" "bitlen d - 1"] by (simp add: e_def)
  ultimately have hi: "q < pow2 (e + 1)"
    by (simp add: q)
  show "pow2 (ilog2 q) \<le> q"
    using lo by (simp add: il)
  show "q < pow2 (ilog2 q + 1)"
    using hi by (simp add: il)
qed

lemma ilog2_mono:
  assumes "0 < a" "a \<le> b"
  shows "ilog2 a \<le> ilog2 b"
proof -
  have "pow2 (ilog2 a) \<le> a"
    using assms by (simp add: ilog2_bounds)
  also have "a \<le> b" by fact
  also have "b < pow2 (ilog2 b + 1)"
    using assms by (simp add: ilog2_bounds)
  finally show ?thesis
    using pow2_less_cancel by fastforce
qed

lemma round_binary32_pos:
  "0 < q \<Longrightarrow> round_binary32 q =
     of_int (round_ties_even (q / pow2 (max (ilog2 q) (- 126) - 23))) * pow2 (max (ilog2 q) (- 126) - 23)"
  by (simp add: round_binary32_def Let_def)

lemma round_binary32_nonneg: "0 \<le> q \<Longrightarrow> 0 \<le> round_binary32 q"
proof (cases "q = 0")
  case True
  then show ?thesis by (simp add: round_binary32_def)
next
  case False
  assume "0 \<le> q"
  with False have q: "0 < q" by simp
  have "0 \<le> q / pow2 (max (ilog2 q) (- 126) - 23)"
    using q by (simp add: less_imp_le)
  then have "0 \<le> round_ties_even (q / pow2 (max (ilog2 q) (- 126) - 23))"
    using rte_ge_int [of 0] by simp
  then show ?thesis
    using q by (simp add: round_binary32_pos less_imp_le)
qed

text \<open>Rounding a value between two powers of two stays between them.\<close>

lemma round_binary32_le_pow2:
  assumes q: "0 < q" and le: "q \<le> pow2 (max (ilog2 q) (- 126) + 1)"
  shows "round_binary32 q \<le> pow2 (max (ilog2 q) (- 126) + 1)"
proof -
  define e where "e = max (ilog2 q) (- 126)"
  have split: "pow2 (e + 1) = of_int (2 ^ 24) * pow2 (e - 23)"
  proof -
    have "pow2 (e + 1) = pow2 24 * pow2 (e - 23)"
      using pow2_add [of 24 "e - 23"] by (simp add: add.commute)
    then show ?thesis by (simp add: pow2_def)
  qed
  have "q / pow2 (e - 23) \<le> of_int (2 ^ 24)"
    using le by (simp add: e_def [symmetric] split pos_divide_le_eq)
  then have "round_ties_even (q / pow2 (e - 23)) \<le> 2 ^ 24"
    by (rule rte_le_int)
  then have "(of_int (round_ties_even (q / pow2 (e - 23))) :: rat) \<le> of_int (2 ^ 24)"
    by (simp only: of_int_le_iff)
  then have "of_int (round_ties_even (q / pow2 (e - 23))) * pow2 (e - 23) \<le> of_int (2 ^ 24) * pow2 (e - 23)"
    by (simp add: mult_right_mono less_imp_le)
  then show ?thesis
    using q by (simp add: round_binary32_pos e_def [symmetric] split)
qed

lemma round_binary32_ge_pow2:
  assumes q: "0 < q" and ge: "pow2 (max (ilog2 q) (- 126)) \<le> q"
  shows "pow2 (max (ilog2 q) (- 126)) \<le> round_binary32 q"
proof -
  define e where "e = max (ilog2 q) (- 126)"
  have split: "pow2 e = of_int (2 ^ 23) * pow2 (e - 23)"
  proof -
    have "pow2 e = pow2 23 * pow2 (e - 23)"
      using pow2_add [of 23 "e - 23"] by simp
    then show ?thesis by (simp add: pow2_def)
  qed
  have "of_int (2 ^ 23) \<le> q / pow2 (e - 23)"
    using ge by (simp add: e_def [symmetric] split pos_le_divide_eq)
  then have "2 ^ 23 \<le> round_ties_even (q / pow2 (e - 23))"
    by (rule rte_ge_int)
  then have "(of_int (2 ^ 23) :: rat) \<le> of_int (round_ties_even (q / pow2 (e - 23)))"
    by (simp only: of_int_le_iff)
  then have "of_int (2 ^ 23) * pow2 (e - 23) \<le> of_int (round_ties_even (q / pow2 (e - 23))) * pow2 (e - 23)"
    by (simp add: mult_right_mono less_imp_le)
  then show ?thesis
    using q by (simp add: round_binary32_pos e_def [symmetric] split)
qed

lemma round_binary32_mono_pos:
  assumes a: "0 < a" and ab: "a \<le> b"
  shows "round_binary32 a \<le> round_binary32 b"
proof -
  from a ab have b: "0 < b" by simp
  define ea where "ea = max (ilog2 a) (- 126)"
  define eb where "eb = max (ilog2 b) (- 126)"
  have le: "ea \<le> eb"
    using ilog2_mono [OF a ab] by (simp add: ea_def eb_def)
  show ?thesis
  proof (cases "ea = eb")
    case True
    have "a / pow2 (eb - 23) \<le> b / pow2 (eb - 23)"
      using ab by (simp add: divide_right_mono less_imp_le)
    then have "round_ties_even (a / pow2 (eb - 23)) \<le> round_ties_even (b / pow2 (eb - 23))"
      by (rule rte_mono)
    then have "(of_int (round_ties_even (a / pow2 (eb - 23))) :: rat) \<le>
        of_int (round_ties_even (b / pow2 (eb - 23)))"
      by (simp only: of_int_le_iff)
    then have "of_int (round_ties_even (a / pow2 (eb - 23))) * pow2 (eb - 23) \<le>
        of_int (round_ties_even (b / pow2 (eb - 23))) * pow2 (eb - 23)"
      by (simp add: mult_right_mono less_imp_le)
    then show ?thesis
      using a b True by (simp add: round_binary32_pos ea_def [symmetric] eb_def [symmetric])
  next
    case False
    with le have lt: "ea + 1 \<le> eb" by simp
    then have ebi: "eb = ilog2 b"
      by (auto simp add: ea_def eb_def max_def split: if_splits)
    have "a < pow2 (ilog2 a + 1)"
      using a by (simp add: ilog2_bounds)
    also have "\<dots> \<le> pow2 (ea + 1)"
      by (simp add: pow2_mono ea_def)
    finally have "round_binary32 a \<le> pow2 (ea + 1)"
      using round_binary32_le_pow2 [OF a] by (simp add: ea_def less_imp_le)
    also have "\<dots> \<le> pow2 eb"
      using lt by (rule pow2_mono)
    also have "\<dots> \<le> round_binary32 b"
      using round_binary32_ge_pow2 [OF b] ilog2_bounds(1) [OF b] ebi
      by (simp add: eb_def)
    finally show ?thesis .
  qed
qed

lemma round_binary32_mono:
  assumes "0 \<le> a" "a \<le> b"
  shows "round_binary32 a \<le> round_binary32 b"
proof (cases "a = 0")
  case True
  with assms show ?thesis
    using round_binary32_nonneg [of b] by (simp add: round_binary32_def)
next
  case False
  with assms show ?thesis
    by (simp add: round_binary32_mono_pos)
qed

lemma round_binary32_1 [simp]: "round_binary32 1 = 1"
  by code_simp

subsection \<open>The external calls, one at a time\<close>

lemma advance_0 [simp]: "advance E 0 g = g"
  by (simp add: advance_def)

lemma advance_add: "advance E m (advance E n g) = advance E (n + m) g"
  by (simp add: advance_def funpow_add add.commute)

lemma advance_Suc: "advance E (Suc n) g = advance E n (snd (rand E g))"
  by (simp add: advance_def funpow_Suc_right del: funpow.simps)

lemma draws_add: "draws E g (m + n) = draws E g m @ draws E (advance E m g) n"
  by (induction m arbitrary: g) (simp_all add: advance_Suc)

lemma length_draws [simp]: "length (draws E g n) = n"
  by (induction n arbitrary: g) simp_all

lemma call_rand_fst [simp]: "fst (call_rand E w) = fst (rand E (rng w))"
  and call_rand_rng [simp]: "rng (snd (call_rand E w)) = snd (rand E (rng w))"
  and call_rand_ext [simp]: "ext (snd (call_rand E w)) = ext w"
  and call_rand_log [simp]: "log (snd (call_rand E w)) = log w @ [Call_rand (fst (rand E (rng w)))]"
  and call_rand_cout [simp]: "cout (snd (call_rand E w)) = cout w"
  by (simp_all add: call_rand_def split_beta)

lemma call_now_fst [simp]: "fst (call_now E w) = fst (now E (ext w))"
  and call_now_rng [simp]: "rng (snd (call_now E w)) = rng w"
  and call_now_log [simp]: "log (snd (call_now E w)) = log w @ [Call_now (fst (now E (ext w)))]"
  and call_now_cout [simp]: "cout (snd (call_now E w)) = cout w"
  by (simp_all add: call_now_def split_beta)

lemma call_InitScene_fst [simp]: "fst (call_InitScene E w) = fst (InitScene E (ext w))"
  and call_InitScene_rng [simp]: "rng (snd (call_InitScene E w)) = rng w"
  and call_InitScene_log [simp]:
    "log (snd (call_InitScene E w)) = log w @ [Call_InitScene (fst (InitScene E (ext w)))]"
  and call_InitScene_cout [simp]: "cout (snd (call_InitScene E w)) = cout w"
  by (simp_all add: call_InitScene_def split_beta)

lemma call_AddTriangleMesh_rng [simp]: "rng (snd (call_AddTriangleMesh E h vs nv ixs ni w)) = rng w"
  and call_AddTriangleMesh_log [simp]:
    "log (snd (call_AddTriangleMesh E h vs nv ixs ni w)) = log w @ [Call_AddTriangleMesh h vs nv ixs ni]"
  and call_AddTriangleMesh_cout [simp]: "cout (snd (call_AddTriangleMesh E h vs nv ixs ni w)) = cout w"
  by (simp_all add: call_AddTriangleMesh_def split_beta)

lemma call_TraceSingle_rng [simp]: "rng (snd (call_TraceSingle E h r hit w)) = rng w"
  and call_TraceSingle_log [simp]:
    "log (snd (call_TraceSingle E h r hit w)) = log w @ [Call_TraceSingle h r hit]"
  and call_TraceSingle_cout [simp]: "cout (snd (call_TraceSingle E h r hit w)) = cout w"
  by (simp_all add: call_TraceSingle_def split_beta)

lemma NextRandom3_fst [simp]: "fst (NextRandom3 E w) = sample3 E (rng w)"
  and NextRandom3_rng [simp]: "rng (snd (NextRandom3 E w)) = advance E 3 (rng w)"
  and NextRandom3_ext [simp]: "ext (snd (NextRandom3 E w)) = ext w"
  and NextRandom3_log [simp]:
    "log (snd (NextRandom3 E w)) = log w @ map Call_rand (draws E (rng w) 3)"
  and NextRandom3_cout [simp]: "cout (snd (NextRandom3 E w)) = cout w"
  unfolding NextRandom3_def sample3_def unit_float_def
  by (simp_all add: split_beta advance_def numeral_3_eq_3 numeral_2_eq_2)

lemma call_srand_simps [simp]:
  "rng (call_srand E seed w) = srand E seed"
  "ext (call_srand E seed w) = ext w"
  "log (call_srand E seed w) = log w @ [Call_srand seed]"
  "cout (call_srand E seed w) = cout w"
  by (simp_all add: call_srand_def)

lemma call_FinalizeScene_simps [simp]:
  "rng (call_FinalizeScene E h w) = rng w"
  "log (call_FinalizeScene E h w) = log w @ [Call_FinalizeScene h]"
  "cout (call_FinalizeScene E h w) = cout w"
  by (simp_all add: call_FinalizeScene_def)

lemma call_DeleteScene_simps [simp]:
  "rng (call_DeleteScene E h w) = rng w"
  "log (call_DeleteScene E h w) = log w @ [Call_DeleteScene h]"
  "cout (call_DeleteScene E h w) = cout w"
  by (simp_all add: call_DeleteScene_def)

lemma print_simps [simp]:
  "rng (print items w) = rng w"
  "ext (print items w) = ext w"
  "log (print items w) = log w"
  "cout (print items w) = cout w @ items"
  by (simp_all add: print_def)

lemma call_ext_simps [simp]:
  "ext (snd (call_now E w)) = snd (now E (ext w))"
  "ext (snd (call_InitScene E w)) = snd (InitScene E (ext w))"
  "ext (snd (call_AddTriangleMesh E h vs nv ixs ni w)) = snd (AddTriangleMesh E h vs nv ixs ni (ext w))"
  "ext (call_FinalizeScene E h w) = FinalizeScene E h (ext w)"
  "ext (snd (call_TraceSingle E h r hit w)) = snd (TraceSingle E h r hit (ext w))"
  "ext (call_DeleteScene E h w) = DeleteScene E h (ext w)"
  by (simp_all add: call_now_def call_InitScene_def call_AddTriangleMesh_def call_FinalizeScene_def
      call_TraceSingle_def call_DeleteScene_def split_beta)

text \<open>No external call and no output touches the two arrays.\<close>

lemma call_arrays [simp]:
  "vertices_array (snd (call_rand E w)) = vertices_array w"
  "indices_array (snd (call_rand E w)) = indices_array w"
  "vertices_array (call_srand E seed w) = vertices_array w"
  "indices_array (call_srand E seed w) = indices_array w"
  "vertices_array (snd (call_now E w)) = vertices_array w"
  "indices_array (snd (call_now E w)) = indices_array w"
  "vertices_array (snd (call_InitScene E w)) = vertices_array w"
  "indices_array (snd (call_InitScene E w)) = indices_array w"
  "vertices_array (snd (call_AddTriangleMesh E h vs nv ixs ni w)) = vertices_array w"
  "indices_array (snd (call_AddTriangleMesh E h vs nv ixs ni w)) = indices_array w"
  "vertices_array (call_FinalizeScene E h w) = vertices_array w"
  "indices_array (call_FinalizeScene E h w) = indices_array w"
  "vertices_array (snd (call_TraceSingle E h r hit w)) = vertices_array w"
  "indices_array (snd (call_TraceSingle E h r hit w)) = indices_array w"
  "vertices_array (call_DeleteScene E h w) = vertices_array w"
  "indices_array (call_DeleteScene E h w) = indices_array w"
  "vertices_array (print items w) = vertices_array w"
  "indices_array (print items w) = indices_array w"
  by (simp_all add: call_rand_def call_srand_def call_now_def call_InitScene_def
      call_AddTriangleMesh_def call_FinalizeScene_def call_TraceSingle_def call_DeleteScene_def
      print_def split_beta)

lemma NextRandom3_arrays [simp]:
  "vertices_array (snd (NextRandom3 E w)) = vertices_array w"
  "indices_array (snd (NextRandom3 E w)) = indices_array w"
  by (simp_all add: NextRandom3_def split_beta)

subsection \<open>The loops\<close>

lemma trace_rays_rng: "rng (trace_rays E h n w) = advance E (6 * n) (rng w)"
  by (induction n arbitrary: w) (simp_all add: split_beta Let_def advance_add)

lemma trace_rays_cout: "cout (trace_rays E h n w) = cout w"
  by (induction n arbitrary: w) (simp_all add: split_beta Let_def)

lemma draws_6: "draws E g 3 @ draws E (advance E 3 g) 3 = draws E g 6"
  using draws_add [of E g 3 3] by simp

lemma trace_rays_log:
  "log (trace_rays E h n w) = log w @ concat (map (trace_events E h) (ray_states E (rng w) n))"
  by (induction n arbitrary: w)
     (simp_all add: split_beta Let_def advance_add trace_events_def sample_ray_def draws_6 [symmetric])

lemma ray_states_add:
  "ray_states E g (m + n) = ray_states E g m @ ray_states E (advance E (6 * m) g) n"
  by (induction m arbitrary: g) (simp_all add: advance_add)

lemma length_ray_states [simp]: "length (ray_states E g n) = n"
  by (induction n arbitrary: g) simp_all

lemma nth_ray_states: "i < n \<Longrightarrow> ray_states E g n ! i = advance E (6 * i) g"
proof (induction n arbitrary: g i)
  case 0
  then show ?case by simp
next
  case (Suc n)
  show ?case
  proof (cases i)
    case 0
    then show ?thesis by simp
  next
    case (Suc j)
    with Suc.prems have "j < n" by simp
    with Suc.IH [of j "advance E 6 g"] Suc show ?thesis
      by (simp add: advance_add)
  qed
qed

lemma trace_trials_rng: "rng (trace_trials E h k n w) = advance E (6 * (k * n)) (rng w)"
  by (induction k arbitrary: w) (simp_all add: trace_rays_rng advance_add algebra_simps)

lemma trace_trials_cout: "cout (trace_trials E h k n w) = cout w"
  by (induction k arbitrary: w) (simp_all add: trace_rays_cout)

lemma trace_trials_log:
  "log (trace_trials E h k n w) =
     log w @ concat (map (trace_events E h) (ray_states E (rng w) (k * n)))"
  by (induction k arbitrary: w)
     (simp_all add: trace_rays_rng trace_rays_log ray_states_add)

lemma rng_rays_rng: "rng (rng_rays E n w) = advance E (6 * n) (rng w)"
  by (induction n arbitrary: w) (simp_all add: split_beta advance_add)

lemma rng_rays_ext: "ext (rng_rays E n w) = ext w"
  by (induction n arbitrary: w) (simp_all add: split_beta)

lemma rng_rays_cout: "cout (rng_rays E n w) = cout w"
  by (induction n arbitrary: w) (simp_all add: split_beta)

lemma draws_Suc6: "draws E g (6 + m) = draws E g 3 @ draws E (advance E 3 g) 3 @ draws E (advance E 6 g) m"
  using draws_add [of E g 6 m] by (simp add: draws_6)

lemma rng_rays_log: "log (rng_rays E n w) = log w @ map Call_rand (draws E (rng w) (6 * n))"
  by (induction n arbitrary: w) (simp_all add: split_beta draws_Suc6 advance_add)

lemma rng_trials_rng: "rng (rng_trials E k n w) = advance E (6 * (k * n)) (rng w)"
  by (induction k arbitrary: w) (simp_all add: rng_rays_rng advance_add algebra_simps)

lemma rng_trials_ext: "ext (rng_trials E k n w) = ext w"
  by (induction k arbitrary: w) (simp_all add: rng_rays_ext)

lemma rng_trials_cout: "cout (rng_trials E k n w) = cout w"
  by (induction k arbitrary: w) (simp_all add: rng_rays_cout)

lemma rng_trials_log:
  "log (rng_trials E k n w) = log w @ map Call_rand (draws E (rng w) (6 * (k * n)))"
  by (induction k arbitrary: w)
     (simp_all add: rng_rays_log rng_rays_rng draws_add algebra_simps)

lemma trace_rays_ext_idle:
  "(\<And>h r hit s. snd (TraceSingle E h r hit s) = s) \<Longrightarrow> ext (trace_rays E h n w) = ext w"
  by (induction n arbitrary: w) (simp_all add: split_beta Let_def)

lemma trace_trials_ext_idle:
  "(\<And>h r hit s. snd (TraceSingle E h r hit s) = s) \<Longrightarrow> ext (trace_trials E h k n w) = ext w"
  by (induction k arbitrary: w) (simp_all add: trace_rays_ext_idle)

lemma ray_states_upt: "ray_states E g n = map (\<lambda>i. advance E (6 * i) g) [0..<n]"
  by (rule nth_equalityI) (simp_all add: nth_ray_states)

lemma trace_rays_arrays:
  "vertices_array (trace_rays E h n w) = vertices_array w"
  "indices_array (trace_rays E h n w) = indices_array w"
  by (induction n arbitrary: w) (simp_all add: split_beta Let_def)

lemma trace_trials_arrays:
  "vertices_array (trace_trials E h k n w) = vertices_array w"
  "indices_array (trace_trials E h k n w) = indices_array w"
  by (induction k arbitrary: w) (simp_all add: trace_rays_arrays)

lemma rng_rays_arrays:
  "vertices_array (rng_rays E n w) = vertices_array w"
  "indices_array (rng_rays E n w) = indices_array w"
  by (induction n arbitrary: w) (simp_all add: split_beta)

lemma rng_trials_arrays:
  "vertices_array (rng_trials E k n w) = vertices_array w"
  "indices_array (rng_trials E k n w) = indices_array w"
  by (induction k arbitrary: w) (simp_all add: rng_rays_arrays)

subsection \<open>Reading the log\<close>

lemma traced_rays_append [simp]: "traced_rays (xs @ ys) = traced_rays xs @ traced_rays ys"
  by (induction xs rule: traced_rays.induct) simp_all

lemma traced_rays_rand [simp]: "traced_rays (map Call_rand vs) = []"
  by (induction vs) simp_all

lemma filter_rand [simp]:
  "filter engine_call (map Call_rand vs) = []"
  "filter is_InitScene (map Call_rand vs) = []"
  "filter is_DeleteScene (map Call_rand vs) = []"
  "filter is_AddTriangleMesh (map Call_rand vs) = []"
  "filter is_TraceSingle (map Call_rand vs) = []"
  "filter (\<lambda>c. \<not> is_TraceSingle c) (map Call_rand vs) = map Call_rand vs"
  by (induction vs) simp_all

lemma filter_trace_events [simp]:
  "filter engine_call (trace_events E h g) = [Call_TraceSingle h (sample_ray E g) None]"
  "filter is_InitScene (trace_events E h g) = []"
  "filter is_DeleteScene (trace_events E h g) = []"
  "filter is_AddTriangleMesh (trace_events E h g) = []"
  "filter is_TraceSingle (trace_events E h g) = [Call_TraceSingle h (sample_ray E g) None]"
  "traced_rays (trace_events E h g) = [sample_ray E g]"
  by (simp_all add: trace_events_def)

lemma traced_rays_blocks [simp]:
  "traced_rays (concat (map (trace_events E h) gs)) = map (sample_ray E) gs"
  by (induction gs) simp_all

lemma filter_blocks [simp]:
  "filter engine_call (concat (map (trace_events E h) gs)) =
     map (\<lambda>g. Call_TraceSingle h (sample_ray E g) None) gs"
  "filter is_InitScene (concat (map (trace_events E h) gs)) = []"
  "filter is_DeleteScene (concat (map (trace_events E h) gs)) = []"
  "filter is_AddTriangleMesh (concat (map (trace_events E h) gs)) = []"
  "filter is_TraceSingle (concat (map (trace_events E h) gs)) =
     map (\<lambda>g. Call_TraceSingle h (sample_ray E g) None) gs"
  by (induction gs) simp_all

lemma clock_readings_append [simp]:
  "clock_readings (xs @ ys) = clock_readings xs @ clock_readings ys"
  by (induction xs rule: clock_readings.induct) simp_all

lemma clock_readings_rand [simp]: "clock_readings (map Call_rand vs) = []"
  by (induction vs) simp_all

lemma clock_readings_blocks [simp]:
  "clock_readings (concat (map (trace_events E h) gs)) = []"
  by (induction gs) (simp_all add: trace_events_def)

lemma filter_not_trace_blocks:
  "filter (\<lambda>c. \<not> is_TraceSingle c) (concat (map (trace_events E h) (ray_states E g n))) =
     map Call_rand (draws E g (6 * n))"
proof (induction n arbitrary: g)
  case 0
  then show ?case by simp
next
  case (Suc n)
  have "draws E g (6 * Suc n) = draws E g 6 @ draws E (advance E 6 g) (6 * n)"
    using draws_add [of E g 6 "6 * n"] by simp
  with Suc show ?case
    by (simp add: trace_events_def)
qed

text \<open>
  The sampled rays depend on the generator and on \<open>RAND_MAX\<close> only, not on the clock
  or the engine.
\<close>

lemma sample_indep:
  "advance (E\<lparr>now := n', elapsed_ms := m', InitScene := i', AddTriangleMesh := a',
       FinalizeScene := f', TraceSingle := t', DeleteScene := d'\<rparr>) k g = advance E k g"
  "sample_ray (E\<lparr>now := n', elapsed_ms := m', InitScene := i', AddTriangleMesh := a',
       FinalizeScene := f', TraceSingle := t', DeleteScene := d'\<rparr>) g = sample_ray E g"
  by (simp_all add: advance_def sample_ray_def sample3_def unit_float_def)

lemma ray_states_indep:
  "ray_states (E\<lparr>now := n', elapsed_ms := m', InitScene := i', AddTriangleMesh := a',
       FinalizeScene := f', TraceSingle := t', DeleteScene := d'\<rparr>) g k = ray_states E g k"
  by (induction k arbitrary: g) (simp_all add: sample_indep)

subsection \<open>The signed division by the number of trials\<close>

lemma sdiv_10_bounds:
  fixes k :: int
  assumes "- (2 ^ 63) \<le> k" "k < 2 ^ 63"
  shows "- 922337203685477580 \<le> k sdiv 10" "k sdiv 10 \<le> 922337203685477580"
  using assms by (auto simp add: signed_divide_int_def sgn_if)

lemma sint_div_s64_10: "sint (div_s64 a 10) = sint a sdiv 10"
proof -
  have r: "- (2 ^ 63) \<le> sint a" "sint a < 2 ^ 63"
    using sint_ge [of a] sint_lt [of a] by simp_all
  have "signed_take_bit 63 (sint a sdiv 10) = sint a sdiv 10"
    using sdiv_10_bounds [OF r] by (intro signed_take_bit_int_eq_self) simp_all
  then show ?thesis
    by (simp add: div_s64_def sint_sbintrunc')
qed

lemma sint_diff_div_s64_10:
  "sint (div_s64 a 10 - div_s64 b 10) = sint (div_s64 a 10) - sint (div_s64 b 10)"
proof -
  have ra: "- (2 ^ 63) \<le> sint a" "sint a < 2 ^ 63"
    using sint_ge [of a] sint_lt [of a] by simp_all
  have rb: "- (2 ^ 63) \<le> sint b" "sint b < 2 ^ 63"
    using sint_ge [of b] sint_lt [of b] by simp_all
  have "sint (div_s64 a 10 - div_s64 b 10) =
          sint (word_of_int (sint a sdiv 10 - sint b sdiv 10) :: 64 word)"
    by (simp add: div_s64_def)
  also have "\<dots> = signed_take_bit 63 (sint a sdiv 10 - sint b sdiv 10)"
    by (subst sint_sbintrunc') simp
  also have "\<dots> = sint a sdiv 10 - sint b sdiv 10"
    using sdiv_10_bounds [OF ra] sdiv_10_bounds [OF rb]
    by (intro signed_take_bit_int_eq_self) simp_all
  finally show ?thesis
    by (simp add: sint_div_s64_10)
qed

subsection \<open>A whole run\<close>

text \<open>
  Every external call of a run, in order, and everything it prints. The time points
  \<open>t0\<close> to \<open>t3\<close> are what the four readings of the clock return.
\<close>

lemma main_log:
  "\<exists>t0 t1 t2 t3.
     log (snd (main E g0 x0)) =
       [Call_InitScene (fst (InitScene E x0)),
        Call_AddTriangleMesh (fst (InitScene E x0)) vertices 12 indices 6,
        Call_FinalizeScene (fst (InitScene E x0)),
        Call_srand 1337,
        Call_now t0]
       @ concat (map (trace_events E (fst (InitScene E x0))) (ray_states E (srand E 1337) 10000000))
       @ [Call_now t1, Call_now t2]
       @ map Call_rand (draws E (advance E 60000000 (srand E 1337)) 60000000)
       @ [Call_now t3, Call_DeleteScene (fst (InitScene E x0))] \<and>
     cout (snd (main E g0 x0)) =
       [Text ''Tracing a million rays...'', Endl,
        Text ''Done after '', Num (div_s64 (elapsed_ms E t0 t1) 10), Text ''ms.'', Endl,
        Text ''RNG overhead '', Num (div_s64 (elapsed_ms E t2 t3) 10), Text ''ms.'', Endl,
        Text ''Pure cost for tracing + overhead: '',
        Num (div_s64 (elapsed_ms E t0 t1) 10 - div_s64 (elapsed_ms E t2 t3) 10), Text ''ms.'', Endl]"
  apply (simp add: main_def Let_def split_beta numTrials_def
      trace_trials_log trace_trials_rng trace_trials_cout
      rng_trials_log rng_trials_rng rng_trials_cout)
  apply (simp add: vertices_def indices_def)
  done

lemma main_traced_rays:
  "traced_rays (log (snd (main E g0 x0))) =
     map (sample_ray E) (ray_states E (srand E 1337) 10000000)"
proof -
  from main_log [of E g0 x0] obtain t0 t1 t2 t3 where
    l: "log (snd (main E g0 x0)) =
       [Call_InitScene (fst (InitScene E x0)),
        Call_AddTriangleMesh (fst (InitScene E x0)) vertices 12 indices 6,
        Call_FinalizeScene (fst (InitScene E x0)),
        Call_srand 1337,
        Call_now t0]
       @ concat (map (trace_events E (fst (InitScene E x0))) (ray_states E (srand E 1337) 10000000))
       @ [Call_now t1, Call_now t2]
       @ map Call_rand (draws E (advance E 60000000 (srand E 1337)) 60000000)
       @ [Call_now t3, Call_DeleteScene (fst (InitScene E x0))]"
    by blast
  show ?thesis
    unfolding l by simp
qed

lemma main_clock_readings:
  "\<exists>t0 t1 t2 t3.
     clock_readings (log (snd (main E g0 x0))) = [t0, t1, t2, t3] \<and>
     cout (snd (main E g0 x0)) =
       [Text ''Tracing a million rays...'', Endl,
        Text ''Done after '', Num (div_s64 (elapsed_ms E t0 t1) 10), Text ''ms.'', Endl,
        Text ''RNG overhead '', Num (div_s64 (elapsed_ms E t2 t3) 10), Text ''ms.'', Endl,
        Text ''Pure cost for tracing + overhead: '',
        Num (div_s64 (elapsed_ms E t0 t1) 10 - div_s64 (elapsed_ms E t2 t3) 10), Text ''ms.'', Endl]"
proof -
  from main_log [of E g0 x0] obtain t0 t1 t2 t3 where
    l: "log (snd (main E g0 x0)) =
       [Call_InitScene (fst (InitScene E x0)),
        Call_AddTriangleMesh (fst (InitScene E x0)) vertices 12 indices 6,
        Call_FinalizeScene (fst (InitScene E x0)),
        Call_srand 1337,
        Call_now t0]
       @ concat (map (trace_events E (fst (InitScene E x0))) (ray_states E (srand E 1337) 10000000))
       @ [Call_now t1, Call_now t2]
       @ map Call_rand (draws E (advance E 60000000 (srand E 1337)) 60000000)
       @ [Call_now t3, Call_DeleteScene (fst (InitScene E x0))]"
    and c: "cout (snd (main E g0 x0)) =
       [Text ''Tracing a million rays...'', Endl,
        Text ''Done after '', Num (div_s64 (elapsed_ms E t0 t1) 10), Text ''ms.'', Endl,
        Text ''RNG overhead '', Num (div_s64 (elapsed_ms E t2 t3) 10), Text ''ms.'', Endl,
        Text ''Pure cost for tracing + overhead: '',
        Num (div_s64 (elapsed_ms E t0 t1) 10 - div_s64 (elapsed_ms E t2 t3) 10), Text ''ms.'', Endl]"
    by blast
  have "clock_readings (log (snd (main E g0 x0))) = [t0, t1, t2, t3]"
    unfolding l by simp
  with c show ?thesis
    by blast
qed

lemma main_arrays:
  "vertices_array (snd (main E g0 x0)) = vertices"
  "indices_array (snd (main E g0 x0)) = indices"
  by (simp_all add: main_def Let_def split_beta trace_trials_arrays rng_trials_arrays)

lemma iso_extern_simps [simp]:
  "RAND_MAX iso_extern = 32767"
  "srand iso_extern seed = seed"
  "rand iso_extern = iso_rand"
  "now iso_extern (t # ts) = (t, ts)"
  "elapsed_ms iso_extern a b = b - a"
  "InitScene iso_extern s = (4096, s)"
  "AddTriangleMesh iso_extern h vs nv ixs ni s = (0, s)"
  "FinalizeScene iso_extern h s = s"
  "TraceSingle iso_extern h r hit s = ((r, ()), s)"
  "DeleteScene iso_extern h s = s"
  by (simp_all add: iso_extern_def)

subsection \<open>The exit status\<close>

text \<open>
  C9. \<open>main\<close> has one return statement, \<open>return 0\<close>: whatever the external world does
  and returns, the exit status of a completed run is 0. The model has no error result
  at all, as the source has no early return, no throw and no check of a result.
\<close>

theorem main_exit_status_zero: "fst (main E g0 x0) = 0"
  by (simp add: main_def Let_def split_beta)

subsection \<open>The reported costs\<close>

text \<open>
  C1. A run reads the clock four times. With \<open>elapsedA\<close> the whole milliseconds
  between the first two readings (around the tracing phase) and \<open>elapsedB\<close> those
  between the last two (around the generator's phase), it prints the per-trial average
  \<open>totalCost = elapsedA / numTrials\<close>, the per-trial average
  \<open>rngCost = elapsedB / numTrials\<close>, and as pure cost \<open>totalCost - rngCost\<close>. The
  subtraction is the one of signed 64-bit integers and it cannot wrap, both operands
  being quotients by 10: the number printed is the mathematical difference of the two
  averages, so it is negative whenever the second average is the larger one. Nothing
  clamps it.
\<close>

theorem pure_cost_is_plain_difference:
  "let ts = clock_readings (log (snd (main E g0 x0)));
       elapsedA = elapsed_ms E (ts ! 0) (ts ! 1);
       elapsedB = elapsed_ms E (ts ! 2) (ts ! 3);
       totalCost = div_s64 elapsedA (word_of_int numTrials);
       rngCost = div_s64 elapsedB (word_of_int numTrials)
   in length ts = 4 \<and>
      cout (snd (main E g0 x0)) =
       [Text ''Tracing a million rays...'', Endl,
        Text ''Done after '', Num totalCost, Text ''ms.'', Endl,
        Text ''RNG overhead '', Num rngCost, Text ''ms.'', Endl,
        Text ''Pure cost for tracing + overhead: '', Num (totalCost - rngCost), Text ''ms.'', Endl] \<and>
      sint totalCost = sint elapsedA sdiv 10 \<and>
      sint rngCost = sint elapsedB sdiv 10 \<and>
      sint (totalCost - rngCost) = sint elapsedA sdiv 10 - sint elapsedB sdiv 10"
proof -
  from main_clock_readings [of E g0 x0] obtain t0 t1 t2 t3 where
    r: "clock_readings (log (snd (main E g0 x0))) = [t0, t1, t2, t3]"
    and c: "cout (snd (main E g0 x0)) =
       [Text ''Tracing a million rays...'', Endl,
        Text ''Done after '', Num (div_s64 (elapsed_ms E t0 t1) 10), Text ''ms.'', Endl,
        Text ''RNG overhead '', Num (div_s64 (elapsed_ms E t2 t3) 10), Text ''ms.'', Endl,
        Text ''Pure cost for tracing + overhead: '',
        Num (div_s64 (elapsed_ms E t0 t1) 10 - div_s64 (elapsed_ms E t2 t3) 10), Text ''ms.'', Endl]"
    by blast
  have "sint (div_s64 a 10 - div_s64 b 10) = sint a sdiv 10 - sint b sdiv 10" for a b
    by (simp add: sint_diff_div_s64_10 sint_div_s64_10)
  then show ?thesis
    by (simp add: Let_def r c numTrials_def sint_div_s64_10)
qed

text \<open>
  A run in which the clock reads 1000, 1050, 1060 and 1135 ms: the tracing phase took
  50 ms, the generator's phase 75 ms, and the run prints 5, 7 and -2.
\<close>

lemma iso_clock_readings:
  "clock_readings (log (snd (main iso_extern 1 [1000, 1050, 1060, 1135]))) =
     [1000, 1050, 1060, 1135]"
  by (simp add: main_def Let_def split_beta numTrials_def trace_trials_log rng_trials_log
      rng_trials_ext trace_trials_ext_idle)

theorem pure_cost_is_plain_difference_witness:
  "cout (snd (main iso_extern 1 [1000, 1050, 1060, 1135])) =
     [Text ''Tracing a million rays...'', Endl,
      Text ''Done after '', Num 5, Text ''ms.'', Endl,
      Text ''RNG overhead '', Num 7, Text ''ms.'', Endl,
      Text ''Pure cost for tracing + overhead: '', Num (- 2), Text ''ms.'', Endl] \<and>
   sint (- 2 :: 64 word) = - 2"
  using pure_cost_is_plain_difference [of iso_extern 1 "[1000, 1050, 1060, 1135]"]
  by (simp add: Let_def iso_clock_readings numTrials_def div_s64_def signed_divide_int_def)

text \<open>
  C10. Each of the two averages printed is the elapsed time of its phase, in whole
  milliseconds between the two readings of the clock around the phase, divided by the
  number of trials 10 as signed integers: its magnitude is the magnitude of the elapsed
  time divided by 10 with the remainder dropped, its sign that of the elapsed time. So
  the average is rounded towards zero, not to the nearest millisecond.
\<close>

theorem averages_truncate_towards_zero:
  "\<exists>t0 t1 t2 t3 phaseA phaseB totalCost rngCost.
     log (snd (main E g0 x0)) =
       [Call_InitScene (fst (InitScene E x0)),
        Call_AddTriangleMesh (fst (InitScene E x0)) vertices 12 indices 6,
        Call_FinalizeScene (fst (InitScene E x0)),
        Call_srand 1337,
        Call_now t0] @ phaseA @ [Call_now t1, Call_now t2] @ phaseB @
       [Call_now t3, Call_DeleteScene (fst (InitScene E x0))] \<and>
     cout (snd (main E g0 x0)) =
       [Text ''Tracing a million rays...'', Endl,
        Text ''Done after '', Num totalCost, Text ''ms.'', Endl,
        Text ''RNG overhead '', Num rngCost, Text ''ms.'', Endl,
        Text ''Pure cost for tracing + overhead: '', Num (totalCost - rngCost), Text ''ms.'', Endl] \<and>
     sint totalCost = sgn (sint (elapsed_ms E t0 t1)) * (\<bar>sint (elapsed_ms E t0 t1)\<bar> div 10) \<and>
     sint rngCost = sgn (sint (elapsed_ms E t2 t3)) * (\<bar>sint (elapsed_ms E t2 t3)\<bar> div 10)"
proof -
  have "sint (div_s64 a 10) = sgn (sint a) * (\<bar>sint a\<bar> div 10)" for a
    by (simp add: sint_div_s64_10 signed_divide_int_def)
  with main_log [of E g0 x0] show ?thesis
    by blast
qed

subsection \<open>The scene and the order of the calls\<close>

text \<open>
  C5. The calls a run makes to the engine are, in this order: one \<open>InitScene\<close>, one
  \<open>AddTriangleMesh\<close>, one \<open>FinalizeScene\<close>, ten million \<open>TraceSingle\<close> and one
  \<open>DeleteScene\<close>. There is exactly one creation and exactly one destruction, and every
  call after the creation is given the handle the creation returned.
\<close>

theorem one_scene_one_handle:
  "filter engine_call (log (snd (main E g0 x0))) =
     [Call_InitScene (fst (InitScene E x0)),
      Call_AddTriangleMesh (fst (InitScene E x0)) vertices 12 indices 6,
      Call_FinalizeScene (fst (InitScene E x0))]
     @ map (\<lambda>r. Call_TraceSingle (fst (InitScene E x0)) r None)
         (traced_rays (log (snd (main E g0 x0))))
     @ [Call_DeleteScene (fst (InitScene E x0))] \<and>
   filter is_InitScene (log (snd (main E g0 x0))) = [Call_InitScene (fst (InitScene E x0))] \<and>
   filter is_DeleteScene (log (snd (main E g0 x0))) = [Call_DeleteScene (fst (InitScene E x0))] \<and>
   length (traced_rays (log (snd (main E g0 x0)))) = 10000000"
proof -
  from main_log [of E g0 x0] obtain t0 t1 t2 t3 where
    l: "log (snd (main E g0 x0)) =
       [Call_InitScene (fst (InitScene E x0)),
        Call_AddTriangleMesh (fst (InitScene E x0)) vertices 12 indices 6,
        Call_FinalizeScene (fst (InitScene E x0)),
        Call_srand 1337,
        Call_now t0]
       @ concat (map (trace_events E (fst (InitScene E x0))) (ray_states E (srand E 1337) 10000000))
       @ [Call_now t1, Call_now t2]
       @ map Call_rand (draws E (advance E 60000000 (srand E 1337)) 60000000)
       @ [Call_now t3, Call_DeleteScene (fst (InitScene E x0))]"
    by blast
  show ?thesis
    unfolding l by (simp add: comp_def)
qed

text \<open>
  C6. The log of a run splits into a part without any \<open>TraceSingle\<close>, the
  \<open>FinalizeScene\<close> call, a middle part, and the \<open>DeleteScene\<close> call as the last entry;
  there is no other \<open>DeleteScene\<close>. So each of the ten million \<open>TraceSingle\<close> calls lies
  in the middle part: after the scene was finalized and before it is destroyed.
\<close>

theorem traces_between_finalize_and_delete:
  fixes E :: "('g, 'x, 't, 'h) extern"
  shows "\<exists>pre mid.
     log (snd (main E g0 x0)) =
       pre @ [Call_FinalizeScene (fst (InitScene E x0))] @ mid @
       [Call_DeleteScene (fst (InitScene E x0))] \<and>
     filter is_TraceSingle pre = [] \<and>
     filter is_DeleteScene (pre @ mid) = [] \<and>
     length (filter is_TraceSingle mid) = 10000000"
proof -
  from main_log [of E g0 x0] obtain t0 t1 t2 t3 where
    l: "log (snd (main E g0 x0)) =
       [Call_InitScene (fst (InitScene E x0)),
        Call_AddTriangleMesh (fst (InitScene E x0)) vertices 12 indices 6,
        Call_FinalizeScene (fst (InitScene E x0)),
        Call_srand 1337,
        Call_now t0]
       @ concat (map (trace_events E (fst (InitScene E x0))) (ray_states E (srand E 1337) 10000000))
       @ [Call_now t1, Call_now t2]
       @ map Call_rand (draws E (advance E 60000000 (srand E 1337)) 60000000)
       @ [Call_now t3, Call_DeleteScene (fst (InitScene E x0))]"
    by blast
  define pre :: "('t, 'h) call list" where
    "pre = [Call_InitScene (fst (InitScene E x0)),
        Call_AddTriangleMesh (fst (InitScene E x0)) vertices 12 indices 6]"
  define mid where
    "mid = [Call_srand 1337, Call_now t0]
       @ concat (map (trace_events E (fst (InitScene E x0))) (ray_states E (srand E 1337) 10000000))
       @ [Call_now t1, Call_now t2]
       @ map Call_rand (draws E (advance E 60000000 (srand E 1337)) 60000000)
       @ [Call_now t3]"
  have "log (snd (main E g0 x0)) =
       pre @ [Call_FinalizeScene (fst (InitScene E x0))] @ mid @
       [Call_DeleteScene (fst (InitScene E x0))]"
    by (simp add: l pre_def mid_def)
  moreover have "filter is_TraceSingle pre = []"
    by (simp add: pre_def)
  moreover have "filter is_DeleteScene (pre @ mid) = []"
    by (simp add: pre_def mid_def)
  moreover have "length (filter is_TraceSingle mid) = 10000000"
    by (simp add: mid_def)
  ultimately show ?thesis
    by blast
qed

subsection \<open>The mesh\<close>

text \<open>
  C4, as the code has it. A run registers one mesh. The call is given the handle of
  the scene, the array of the 12 floats of the 4 corners of the quad, the number 12,
  the array of the 6 indices of the 2 triangles, and the number 6. The third argument
  is \<open>sizeof(vertices) / sizeof(float)\<close>: the number of floats in the vertex array,
  which is three times the number of vertices, as the fifth is the number of ints in
  the index array. The driver does not write to the arrays after the call: the call
  itself and every statement after it (finalizing, seeding, printing, reading the
  clock, the loops of both phases, deleting the scene) leave both arrays as they are,
  and at the end of the run they hold what they were initialised with.
\<close>

theorem mesh_registration_passes_element_counts:
  "filter is_AddTriangleMesh (log (snd (main E g0 x0))) =
     [Call_AddTriangleMesh (fst (InitScene E x0))
        [-1, 0, -1, 1, 0, -1, 1, 0, 1, -1, 0, 1] 12 [0, 1, 2, 0, 2, 3] 6] \<and>
   vertices_array (snd (main E g0 x0)) = [-1, 0, -1, 1, 0, -1, 1, 0, 1, -1, 0, 1] \<and>
   indices_array (snd (main E g0 x0)) = [0, 1, 2, 0, 2, 3] \<and>
   vertices_array (snd (call_AddTriangleMesh E h vs nv ixs ni w)) = vertices_array w \<and>
   indices_array (snd (call_AddTriangleMesh E h vs nv ixs ni w)) = indices_array w \<and>
   vertices_array (call_FinalizeScene E h w) = vertices_array w \<and>
   indices_array (call_FinalizeScene E h w) = indices_array w \<and>
   vertices_array (call_srand E seed w) = vertices_array w \<and>
   indices_array (call_srand E seed w) = indices_array w \<and>
   vertices_array (print items w) = vertices_array w \<and>
   indices_array (print items w) = indices_array w \<and>
   vertices_array (snd (call_now E w)) = vertices_array w \<and>
   indices_array (snd (call_now E w)) = indices_array w \<and>
   vertices_array (trace_trials E h k n w) = vertices_array w \<and>
   indices_array (trace_trials E h k n w) = indices_array w \<and>
   vertices_array (rng_trials E k n w) = vertices_array w \<and>
   indices_array (rng_trials E k n w) = indices_array w \<and>
   vertices_array (call_DeleteScene E h w) = vertices_array w \<and>
   indices_array (call_DeleteScene E h w) = indices_array w"
proof -
  from main_log [of E g0 x0] obtain t0 t1 t2 t3 where
    l: "log (snd (main E g0 x0)) =
       [Call_InitScene (fst (InitScene E x0)),
        Call_AddTriangleMesh (fst (InitScene E x0)) vertices 12 indices 6,
        Call_FinalizeScene (fst (InitScene E x0)),
        Call_srand 1337,
        Call_now t0]
       @ concat (map (trace_events E (fst (InitScene E x0))) (ray_states E (srand E 1337) 10000000))
       @ [Call_now t1, Call_now t2]
       @ map Call_rand (draws E (advance E 60000000 (srand E 1337)) 60000000)
       @ [Call_now t3, Call_DeleteScene (fst (InitScene E x0))]"
    by blast
  have "filter is_AddTriangleMesh (log (snd (main E g0 x0))) =
     [Call_AddTriangleMesh (fst (InitScene E x0))
        [-1, 0, -1, 1, 0, -1, 1, 0, 1, -1, 0, 1] 12 [0, 1, 2, 0, 2, 3] 6]"
    unfolding l by (simp add: vertices_def indices_def)
  moreover have "vertices_array (snd (main E g0 x0)) = [-1, 0, -1, 1, 0, -1, 1, 0, 1, -1, 0, 1]"
    by (simp add: main_arrays vertices_def)
  moreover have "indices_array (snd (main E g0 x0)) = [0, 1, 2, 0, 2, 3]"
    by (simp add: main_arrays indices_def)
  ultimately show ?thesis
    by (simp add: trace_trials_arrays rng_trials_arrays)
qed

text \<open>
  C4, as the claim has it, fails: the mesh registration of a run is not a call that is
  given the vertex count 4 of the quad.
\<close>

theorem mesh_registration_vertex_count_counterexample:
  "filter is_AddTriangleMesh (log (snd (main iso_extern 1 []))) \<noteq>
     [Call_AddTriangleMesh 4096 vertices 4 indices 6]"
proof -
  from main_log [of iso_extern 1 "[]"] obtain t0 t1 t2 t3 where
    l: "log (snd (main iso_extern 1 [])) =
       [Call_InitScene (fst (InitScene iso_extern [])),
        Call_AddTriangleMesh (fst (InitScene iso_extern [])) vertices 12 indices 6,
        Call_FinalizeScene (fst (InitScene iso_extern [])),
        Call_srand 1337,
        Call_now t0]
       @ concat (map (trace_events iso_extern (fst (InitScene iso_extern [])))
           (ray_states iso_extern (srand iso_extern 1337) 10000000))
       @ [Call_now t1, Call_now t2]
       @ map Call_rand (draws iso_extern (advance iso_extern 60000000 (srand iso_extern 1337)) 60000000)
       @ [Call_now t3, Call_DeleteScene (fst (InitScene iso_extern []))]"
    by blast
  show ?thesis
    unfolding l by simp
qed

subsection \<open>The rays\<close>

text \<open>
  C2. The seeding \<open>srand(1337)\<close> is the last call before the first reading of the
  clock, so the timed tracing phase starts from the generator state the seed 1337
  gives. The rays a run traces are therefore the same in any two runs, whatever state
  the generator started in (\<open>g0\<close>, \<open>g0'\<close>), whatever the state of the world outside
  (\<open>x0\<close>, \<open>x0'\<close>) and however the clock and the engine behave. The same holds for the
  tracing loops alone, run after seeding with 1337 in any two states \<open>w\<close>, \<open>w'\<close>.
\<close>

theorem seeded_rays_are_reproducible:
  "(\<exists>t0 rest. log (snd (main E g0 x0)) =
      [Call_InitScene (fst (InitScene E x0)),
       Call_AddTriangleMesh (fst (InitScene E x0)) vertices 12 indices 6,
       Call_FinalizeScene (fst (InitScene E x0)),
       Call_srand 1337,
       Call_now t0] @ rest) \<and>
   traced_rays (log (snd (main E g0 x0))) =
     traced_rays (log (snd (main (E\<lparr>now := n', elapsed_ms := m', InitScene := i',
       AddTriangleMesh := a', FinalizeScene := f', TraceSingle := t', DeleteScene := d'\<rparr>) g0' x0'))) \<and>
   traced_rays (log (trace_trials E h k n (call_srand E 1337 (w\<lparr>log := []\<rparr>)))) =
     traced_rays (log (trace_trials E h' k n (call_srand E 1337 (w'\<lparr>log := []\<rparr>))))"
proof (intro conjI)
  show "\<exists>t0 rest. log (snd (main E g0 x0)) =
      [Call_InitScene (fst (InitScene E x0)),
       Call_AddTriangleMesh (fst (InitScene E x0)) vertices 12 indices 6,
       Call_FinalizeScene (fst (InitScene E x0)),
       Call_srand 1337,
       Call_now t0] @ rest"
    using main_log [of E g0 x0] by blast
  show "traced_rays (log (snd (main E g0 x0))) =
     traced_rays (log (snd (main (E\<lparr>now := n', elapsed_ms := m', InitScene := i',
       AddTriangleMesh := a', FinalizeScene := f', TraceSingle := t', DeleteScene := d'\<rparr>) g0' x0')))"
    by (simp add: main_traced_rays ray_states_indep sample_indep)
  show "traced_rays (log (trace_trials E h k n (call_srand E 1337 (w\<lparr>log := []\<rparr>)))) =
     traced_rays (log (trace_trials E h' k n (call_srand E 1337 (w'\<lparr>log := []\<rparr>))))"
    by (simp add: trace_trials_log)
qed

text \<open>
  C8. The \<open>TraceSingle\<close> calls of a run, in order: the call of query \<open>i\<close> is given a
  ray that has as origin the vector of draws \<open>6 i\<close>, \<open>6 i + 1\<close>, \<open>6 i + 2\<close> after the
  seeding, as direction the vector of draws \<open>6 i + 3\<close>, \<open>6 i + 4\<close>, \<open>6 i + 5\<close>, and 0
  as third component, and a hit record nothing has been written to. So every query has
  a ray of its own, built from six draws no other ray uses, and a hit record of its
  own: what the engine left in the ray or in the hit record of an earlier query reaches
  no later call, whatever the engine does.
\<close>

theorem fresh_ray_per_query:
  "filter is_TraceSingle (log (snd (main E g0 x0))) =
     map (\<lambda>i. Call_TraceSingle (fst (InitScene E x0))
                  (Ray (sample3 E (advance E (6 * i) (srand E 1337)))
                       (sample3 E (advance E (6 * i + 3) (srand E 1337))) 0)
                  None) [0..<10000000] \<and>
   traced_rays (log (snd (main E g0 x0))) =
     map (\<lambda>i. Ray (sample3 E (advance E (6 * i) (srand E 1337)))
                  (sample3 E (advance E (6 * i + 3) (srand E 1337))) 0) [0..<10000000]"
proof -
  from main_log [of E g0 x0] obtain t0 t1 t2 t3 where
    l: "log (snd (main E g0 x0)) =
       [Call_InitScene (fst (InitScene E x0)),
        Call_AddTriangleMesh (fst (InitScene E x0)) vertices 12 indices 6,
        Call_FinalizeScene (fst (InitScene E x0)),
        Call_srand 1337,
        Call_now t0]
       @ concat (map (trace_events E (fst (InitScene E x0))) (ray_states E (srand E 1337) 10000000))
       @ [Call_now t1, Call_now t2]
       @ map Call_rand (draws E (advance E 60000000 (srand E 1337)) 60000000)
       @ [Call_now t3, Call_DeleteScene (fst (InitScene E x0))]"
    by blast
  have "filter is_TraceSingle (log (snd (main E g0 x0))) =
      map (\<lambda>g. Call_TraceSingle (fst (InitScene E x0)) (sample_ray E g) None)
        (ray_states E (srand E 1337) 10000000)"
    unfolding l by simp
  then show ?thesis
    by (simp add: main_traced_rays ray_states_upt sample_ray_def advance_add comp_def)
qed

subsection \<open>The range of the sampled components\<close>

lemma float_of_int_nonneg: "0 \<le> v \<Longrightarrow> 0 \<le> float_of_int v"
  by (simp add: float_of_int_def round_binary32_nonneg)

lemma float_of_int_mono: "0 \<le> v \<Longrightarrow> v \<le> m \<Longrightarrow> float_of_int v \<le> float_of_int m"
  by (simp add: float_of_int_def round_binary32_mono)

lemma float_of_int_pos: "0 < m \<Longrightarrow> 0 < float_of_int m"
proof -
  assume "0 < m"
  then have "round_binary32 1 \<le> round_binary32 (of_int m)"
    by (intro round_binary32_mono) simp_all
  then show ?thesis
    by (simp add: float_of_int_def)
qed

lemma unit_float_range:
  assumes "0 < RAND_MAX E" "0 \<le> v" "v \<le> RAND_MAX E"
  shows "0 \<le> unit_float E v" and "unit_float E v \<le> 1"
proof -
  have y: "0 < float_of_int (RAND_MAX E)"
    using assms(1) by (rule float_of_int_pos)
  have x: "0 \<le> float_of_int v" "float_of_int v \<le> float_of_int (RAND_MAX E)"
    using assms by (simp_all add: float_of_int_nonneg float_of_int_mono)
  have q: "0 \<le> float_of_int v / float_of_int (RAND_MAX E)"
    "float_of_int v / float_of_int (RAND_MAX E) \<le> 1"
    using x y by simp_all
  show "0 \<le> unit_float E v"
    using q(1) by (simp add: unit_float_def float_div_def round_binary32_nonneg)
  have "round_binary32 (float_of_int v / float_of_int (RAND_MAX E)) \<le> round_binary32 1"
    using q by (intro round_binary32_mono)
  then show "unit_float E v \<le> 1"
    by (simp add: unit_float_def float_div_def)
qed

lemma sample3_components:
  "components (sample3 E g) = map (unit_float E) (draws E g 3)"
  by (simp add: sample3_def numeral_3_eq_3 advance_def numeral_2_eq_2)

lemma iso_draws_1337: "draws iso_extern 1337 3 = [1199, 22292, 14258]"
  by code_simp

lemma iso_draws_24884: "draws iso_extern 24884 3 = [32767, 31077, 25871]"
  by code_simp

lemma iso_unit_floats_1337:
  "unit_float iso_extern 1199 = 2455627 / 67108864"
  "unit_float iso_extern 22292 = 2853463 / 4194304"
  "unit_float iso_extern 14258 = 7300319 / 16777216"
  by code_simp+

lemma iso_unit_floats_24884:
  "unit_float iso_extern 32767 = 1"
  "unit_float iso_extern 31077 = 7955955 / 8388608"
  "unit_float iso_extern 25871 = 3311589 / 4194304"
  by code_simp+

lemma components_eq_iff: "components v = [a, b, c] \<longleftrightarrow> v = Vector3 a b c"
  by (cases v) auto

lemma float_div_self: "0 < m \<Longrightarrow> float_div (float_of_int m) (float_of_int m) = 1"
  using float_of_int_pos [of m] by (simp add: float_div_def)

lemma float_div_zero: "float_div (float_of_int 0) b = 0"
  by (simp add: float_div_def float_of_int_def round_binary32_def)

text \<open>
  C3, as the code has it. \<open>rand\<close> returns a value from 0 to \<open>RAND_MAX\<close>, both
  included, and the sampler divides by \<open>RAND_MAX\<close>: when the three values drawn are in
  that range, each component of the vector lies in the closed interval from 0 to 1.
  Rounding to single precision does not leave the interval. Each component is the
  single precision quotient of its draw by \<open>RAND_MAX\<close>, and both ends of the interval
  are reached: a draw of \<open>RAND_MAX\<close> gives the component 1, a draw of 0 the component 0.
\<close>

theorem sampled_components_in_closed_unit_interval:
  assumes "0 < RAND_MAX E"
    and "list_all (\<lambda>v. 0 \<le> v \<and> v \<le> RAND_MAX E) (draws E (rng w) 3)"
  shows "list_all (\<lambda>c. 0 \<le> c \<and> c \<le> 1) (components (fst (NextRandom3 E w))) \<and>
    components (fst (NextRandom3 E w)) =
      map (\<lambda>v. float_div (float_of_int v) (float_of_int (RAND_MAX E))) (draws E (rng w) 3) \<and>
    float_div (float_of_int (RAND_MAX E)) (float_of_int (RAND_MAX E)) = 1 \<and>
    float_div (float_of_int 0) (float_of_int (RAND_MAX E)) = 0"
proof (intro conjI)
  show "list_all (\<lambda>c. 0 \<le> c \<and> c \<le> 1) (components (fst (NextRandom3 E w)))"
    using assms by (simp add: sample3_components list_all_iff unit_float_range)
  show "components (fst (NextRandom3 E w)) =
      map (\<lambda>v. float_div (float_of_int v) (float_of_int (RAND_MAX E))) (draws E (rng w) 3)"
    by (simp add: sample3_components unit_float_def [abs_def])
  show "float_div (float_of_int (RAND_MAX E)) (float_of_int (RAND_MAX E)) = 1"
    using assms(1) by (rule float_div_self)
  show "float_div (float_of_int 0) (float_of_int (RAND_MAX E)) = 0"
    by (rule float_div_zero)
qed

text \<open>
  The first vector after \<open>srand(1337)\<close> with the generator of the C standard: the draws
  are 1199, 22292 and 14258, the components their quotients by 32767 in single precision.
\<close>

theorem sampled_components_in_closed_unit_interval_witness:
  "0 < RAND_MAX iso_extern \<and>
   list_all (\<lambda>v. 0 \<le> v \<and> v \<le> RAND_MAX iso_extern)
     (draws iso_extern (rng \<lparr>rng = 1337, ext = [], log = [], cout = [], vertices_array = [], indices_array = []\<rparr>) 3) \<and>
   draws iso_extern 1337 3 = [1199, 22292, 14258] \<and>
   fst (NextRandom3 iso_extern \<lparr>rng = 1337, ext = [], log = [], cout = [], vertices_array = [], indices_array = []\<rparr>) =
     Vector3 (2455627 / 67108864) (2853463 / 4194304) (7300319 / 16777216) \<and>
   float_div (float_of_int 32767) (float_of_int 32767) = 1"
proof -
  have h1: "0 < RAND_MAX iso_extern"
    by simp
  have h2: "list_all (\<lambda>v. 0 \<le> v \<and> v \<le> RAND_MAX iso_extern)
     (draws iso_extern (rng \<lparr>rng = 1337, ext = [], log = [], cout = [], vertices_array = [], indices_array = []\<rparr>) 3)"
    by (simp add: iso_draws_1337)
  have u: "float_div (float_of_int 1199) (float_of_int 32767) = 2455627 / 67108864"
    "float_div (float_of_int 22292) (float_of_int 32767) = 2853463 / 4194304"
    "float_div (float_of_int 14258) (float_of_int 32767) = 7300319 / 16777216"
    using iso_unit_floats_1337 by (simp_all add: unit_float_def)
  from sampled_components_in_closed_unit_interval [OF h1 h2] show ?thesis
    by (simp add: iso_draws_1337 u components_eq_iff)
qed

text \<open>
  The generator of the C standard is affine in its state, so many steps compose into
  one: the state 34890 draws after \<open>srand(1337)\<close>, where the ray of query 5815 starts.
\<close>

lemma iso_advance_compose:
  assumes "\<And>g. advance iso_extern m g = a * g + c"
    and "\<And>g. advance iso_extern n g = a' * g + c'"
    and "k = m + n" and "a'' = a' * a" and "c'' = a' * c + c'"
  shows "advance iso_extern k g = a'' * g + c''"
proof -
  have "advance iso_extern (m + n) g = advance iso_extern n (advance iso_extern m g)"
    by (simp add: advance_add)
  then show ?thesis
    by (simp add: assms algebra_simps)
qed

lemma iso_advance_34890: "advance iso_extern 34890 1337 = 3994092695"
proof -
  have s1: "advance iso_extern 1 g = 1103515245 * g + 12345" for g
    by (simp add: advance_def iso_rand_def Let_def)
  have s2: "advance iso_extern 2 g = 3265436265 * g + 3554416254" for g
    by (rule iso_advance_compose [OF s1 s1]) simp_all
  have s4: "advance iso_extern 4 g = 3993403153 * g + 3596950572" for g
    by (rule iso_advance_compose [OF s2 s2]) simp_all
  have s8: "advance iso_extern 8 g = 3487424289 * g + 3441282840" for g
    by (rule iso_advance_compose [OF s4 s4]) simp_all
  have s16: "advance iso_extern 16 g = 1601471041 * g + 1695770928" for g
    by (rule iso_advance_compose [OF s8 s8]) simp_all
  have s17: "advance iso_extern 17 g = 1670464429 * g + 2121308585" for g
    by (rule iso_advance_compose [OF s16 s1]) simp_all
  have s34: "advance iso_extern 34 g = 2313028329 * g + 3430460382" for g
    by (rule iso_advance_compose [OF s17 s17]) simp_all
  have s68: "advance iso_extern 68 g = 1847883793 * g + 2955465964" for g
    by (rule iso_advance_compose [OF s34 s34]) simp_all
  have s136: "advance iso_extern 136 g = 2568483105 * g + 3755841688" for g
    by (rule iso_advance_compose [OF s68 s68]) simp_all
  have s272: "advance iso_extern 272 g = 2836211265 * g + 3854392368" for g
    by (rule iso_advance_compose [OF s136 s136]) simp_all
  have s544: "advance iso_extern 544 g = 3125894273 * g + 3035685984" for g
    by (rule iso_advance_compose [OF s272 s272]) simp_all
  have s545: "advance iso_extern 545 g = 1805234413 * g + 1919331609" for g
    by (rule iso_advance_compose [OF s544 s1]) simp_all
  have s1090: "advance iso_extern 1090 g = 328252265 * g + 3647413566" for g
    by (rule iso_advance_compose [OF s545 s545]) simp_all
  have s2180: "advance iso_extern 2180 g = 4115829009 * g + 1676567980" for g
    by (rule iso_advance_compose [OF s1090 s1090]) simp_all
  have s4360: "advance iso_extern 4360 g = 3407364897 * g + 997298712" for g
    by (rule iso_advance_compose [OF s2180 s2180]) simp_all
  have s4361: "advance iso_extern 4361 g = 709796621 * g + 7255153" for g
    by (rule iso_advance_compose [OF s4360 s1]) simp_all
  have s8722: "advance iso_extern 8722 g = 130387625 * g + 123719982" for g
    by (rule iso_advance_compose [OF s4361 s4361]) simp_all
  have s17444: "advance iso_extern 17444 g = 496626577 * g + 1175350412" for g
    by (rule iso_advance_compose [OF s8722 s8722]) simp_all
  have s17445: "advance iso_extern 17445 g = 2205514429 * g + 3112112085" for g
    by (rule iso_advance_compose [OF s17444 s1]) simp_all
  have s34890: "advance iso_extern 34890 g = 3650793353 * g + 1966227990" for g
    by (rule iso_advance_compose [OF s17445 s17445]) simp_all
  show ?thesis
    by (simp add: s34890)
qed

lemma iso_unit_floats_34890:
  "unit_float iso_extern 28783 = 7368673 / 8388608"
  "unit_float iso_extern 2855 = 11694437 / 134217728"
  "unit_float iso_extern 13862 = 14195121 / 33554432"
  "unit_float iso_extern 5207 = 10664261 / 67108864"
  "unit_float iso_extern 4346 = 556305 / 4194304"
  "unit_float iso_extern 32767 = 1"
  by code_simp+

lemma iso_sample_ray_34890:
  "sample_ray iso_extern 3994092695 =
     Ray (Vector3 (7368673 / 8388608) (11694437 / 134217728) (14195121 / 33554432))
         (Vector3 (10664261 / 67108864) (556305 / 4194304) 1) 0"
proof -
  have a: "advance iso_extern 3 3994092695 = 908479138"
    by code_simp
  have d: "draws iso_extern 3994092695 3 = [28783, 2855, 13862]"
    "draws iso_extern 908479138 3 = [5207, 4346, 32767]"
    by code_simp+
  have "components (sample3 iso_extern 3994092695) =
      [7368673 / 8388608, 11694437 / 134217728, 14195121 / 33554432]"
    by (simp only: sample3_components d list.map iso_unit_floats_34890)
  moreover have "components (sample3 iso_extern (advance iso_extern 3 3994092695)) =
      [10664261 / 67108864, 556305 / 4194304, 1]"
    by (simp only: a sample3_components d list.map iso_unit_floats_34890)
  ultimately show ?thesis
    by (simp only: sample_ray_def components_eq_iff)
qed

text \<open>
  A run with this generator: draw 34895 after the seeding is 32767, and the ray of
  query 5815 has a direction whose third component is 1.
\<close>

lemma main_traces_component_one:
  "traced_rays (log (snd (main iso_extern g0 x0))) ! 5815 =
     Ray (Vector3 (7368673 / 8388608) (11694437 / 134217728) (14195121 / 33554432))
         (Vector3 (10664261 / 67108864) (556305 / 4194304) 1) 0"
proof -
  have "traced_rays (log (snd (main iso_extern g0 x0))) ! 5815 =
      sample_ray iso_extern (advance iso_extern (6 * 5815) 1337)"
    by (simp add: main_traced_rays nth_ray_states)
  then show ?thesis
    by (simp add: iso_advance_34890 iso_sample_ray_34890)
qed

text \<open>
  C3, as the claim has it, fails: after \<open>srand(24884)\<close> the first draw of the generator
  of the C standard is 32767, which is \<open>RAND_MAX\<close>, and the first component of the
  vector sampled is 1, not less than 1. The same happens in a run of \<open>main\<close> itself
  with this generator, in the direction of the ray of query 5815.
\<close>

theorem sampled_component_one_counterexample:
  "fst (NextRandom3 iso_extern
      (call_srand iso_extern 24884
        \<lparr>rng = 1, ext = [], log = [], cout = [], vertices_array = [], indices_array = []\<rparr>)) =
     Vector3 1 (7955955 / 8388608) (3311589 / 4194304) \<and>
   traced_rays (log (snd (main iso_extern 1 []))) ! 5815 =
     Ray (Vector3 (7368673 / 8388608) (11694437 / 134217728) (14195121 / 33554432))
         (Vector3 (10664261 / 67108864) (556305 / 4194304) 1) 0 \<and>
   \<not> (1 :: float32) < 1"
  using sample3_components [of iso_extern 24884]
  by (simp add: iso_draws_24884 iso_unit_floats_24884 components_eq_iff main_traces_component_one)

subsection \<open>The second phase\<close>

text \<open>
  C7. The loops of the second phase, run for \<open>k\<close> trials of \<open>n\<close> iterations, make
  \<open>6 k n\<close> draws and no other external call, and leave the world outside untouched.
  Started in the same state as the loops of the first phase they leave the generator in
  the same state, and their log is the log of the first phase with its \<open>k n\<close>
  \<open>TraceSingle\<close> calls removed. In a run both phases are 10 trials of 1000000
  iterations: ten million rays in the first, sixty million draws in the second.
\<close>

theorem rng_phase_mirrors_trace_phase:
  "log (rng_trials E k n w) = log w @ map Call_rand (draws E (rng w) (6 * (k * n))) \<and>
   ext (rng_trials E k n w) = ext w \<and>
   rng (rng_trials E k n w) = rng (trace_trials E h k n w) \<and>
   log (rng_trials E k n (w\<lparr>log := []\<rparr>)) =
     filter (\<lambda>c. \<not> is_TraceSingle c) (log (trace_trials E h k n (w\<lparr>log := []\<rparr>))) \<and>
   length (filter is_TraceSingle (log (trace_trials E h k n (w\<lparr>log := []\<rparr>)))) = k * n \<and>
   (\<exists>t0 t1 t2 t3. log (snd (main E g0 x0)) =
       [Call_InitScene (fst (InitScene E x0)),
        Call_AddTriangleMesh (fst (InitScene E x0)) vertices 12 indices 6,
        Call_FinalizeScene (fst (InitScene E x0)),
        Call_srand 1337,
        Call_now t0]
       @ concat (map (trace_events E (fst (InitScene E x0)))
           (ray_states E (srand E 1337) (10 * 1000000)))
       @ [Call_now t1, Call_now t2]
       @ map Call_rand (draws E (advance E (6 * (10 * 1000000)) (srand E 1337)) (6 * (10 * 1000000)))
       @ [Call_now t3, Call_DeleteScene (fst (InitScene E x0))])"
proof (intro conjI)
  show "log (rng_trials E k n w) = log w @ map Call_rand (draws E (rng w) (6 * (k * n)))"
    by (rule rng_trials_log)
  show "ext (rng_trials E k n w) = ext w"
    by (rule rng_trials_ext)
  show "rng (rng_trials E k n w) = rng (trace_trials E h k n w)"
    by (simp add: rng_trials_rng trace_trials_rng)
  show "log (rng_trials E k n (w\<lparr>log := []\<rparr>)) =
     filter (\<lambda>c. \<not> is_TraceSingle c) (log (trace_trials E h k n (w\<lparr>log := []\<rparr>)))"
    by (simp add: rng_trials_log trace_trials_log filter_not_trace_blocks)
  show "length (filter is_TraceSingle (log (trace_trials E h k n (w\<lparr>log := []\<rparr>)))) = k * n"
    by (simp add: trace_trials_log)
  show "\<exists>t0 t1 t2 t3. log (snd (main E g0 x0)) =
       [Call_InitScene (fst (InitScene E x0)),
        Call_AddTriangleMesh (fst (InitScene E x0)) vertices 12 indices 6,
        Call_FinalizeScene (fst (InitScene E x0)),
        Call_srand 1337,
        Call_now t0]
       @ concat (map (trace_events E (fst (InitScene E x0)))
           (ray_states E (srand E 1337) (10 * 1000000)))
       @ [Call_now t1, Call_now t2]
       @ map Call_rand (draws E (advance E (6 * (10 * 1000000)) (srand E 1337)) (6 * (10 * 1000000)))
       @ [Call_now t3, Call_DeleteScene (fst (InitScene E x0))]"
    using main_log [of E g0 x0] by simp blast
qed

end
